theory Spec2Isabelle
  imports Main "HOL-Library.AList"
begin

section \<open>JavaScript values\<close>

text \<open>
  The error kinds of the specification's taxonomy, and \<open>TypeError\<close>, which the language
  itself raises on a property access on \<open>null\<close>/\<open>undefined\<close> and on a call of a value
  that is not a function.
\<close>

datatype error = TypeError | SyntaxError | IOError | StateError

text \<open>
  The values held by the objects of the program. A plain object is an association list
  (own properties in insertion order; property \<open>k\<close> is the first pair with key \<open>k\<close>).
  A function object is \<open>JFun\<close> with a number that identifies it, an \<open>Error\<close> instance is
  \<open>JError\<close>, numbers are the integer-valued ones.
\<close>

datatype jsval =
    JUndefined
  | JNull
  | JBool bool
  | JNum int
  | JStr string
  | JFun nat
  | JError error
  | JArr "jsval list"
  | JObj "(string \<times> jsval) list"

type_synonym jsobj = "(string \<times> jsval) list"

text \<open>
  The configuration a caller passes to \<open>new Transformer(options)\<close>: plain data without
  arrays (no configuration key of the program is array-valued; lodash merges arrays
  index by index, which is outside this development).
\<close>

datatype cfgval =
    CUndefined
  | CNull
  | CBool bool
  | CNum int
  | CStr string
  | CFun nat
  | CObj "(string \<times> cfgval) list"

type_synonym cfgobj = "(string \<times> cfgval) list"

fun asValue :: "cfgval \<Rightarrow> jsval" where
  "asValue CUndefined = JUndefined"
| "asValue CNull = JNull"
| "asValue (CBool b) = JBool b"
| "asValue (CNum n) = JNum n"
| "asValue (CStr s) = JStr s"
| "asValue (CFun f) = JFun f"
| "asValue (CObj ps) = JObj (map (\<lambda>(k, v). (k, asValue v)) ps)"

text \<open>\<open>obj[key]\<close> on a plain object: \<open>undefined\<close> when the property is absent.\<close>

definition lookup :: "jsobj \<Rightarrow> string \<Rightarrow> jsval" where
  "lookup obj key = (case map_of obj key of None \<Rightarrow> JUndefined | Some v \<Rightarrow> v)"

text \<open>The own enumerable keys of a plain object, in insertion order.\<close>

definition keys :: "('k \<times> 'v) list \<Rightarrow> 'k list" where
  "keys obj = map fst (AList.clearjunk obj)"

text \<open>
  \<open>value[key]\<close> on any value: a \<open>TypeError\<close> (\<open>None\<close>) on \<open>null\<close> and \<open>undefined\<close>, the
  own property on a plain object. On the other values only own data properties are
  modelled, of which they have none; this is exact for the six keys that
  \<open>prepareTransformations\<close> reads.
\<close>

fun getProp :: "jsval \<Rightarrow> string \<Rightarrow> jsval option" where
  "getProp JUndefined key = None"
| "getProp JNull key = None"
| "getProp (JObj obj) key = Some (lookup obj key)"
| "getProp _ key = Some JUndefined"

text \<open>Truthiness, as \<open>if (v)\<close> and \<open>a && b\<close> test it.\<close>

fun truthy :: "jsval \<Rightarrow> bool" where
  "truthy JUndefined = False"
| "truthy JNull = False"
| "truthy (JBool b) = b"
| "truthy (JNum n) = (n \<noteq> 0)"
| "truthy (JStr s) = (s \<noteq> [])"
| "truthy _ = True"

text \<open>\<open>/\.coffee$/.test(file)\<close>: the text ends with \<open>.coffee\<close>.\<close>

definition endsWith :: "string \<Rightarrow> string \<Rightarrow> bool" where
  "endsWith s suffix = (take (length suffix) (rev s) = rev suffix)"

section \<open>lodash \<open>merge\<close>\<close>

text \<open>
  \<open>lodash/object/merge.js\<close> (lodash 3), on the values above: for each own key of the
  source, a source value that is a plain object is merged recursively into the
  destination's value when that is a plain object and into a new \<open>{}\<close> otherwise; a source
  value \<open>undefined\<close> is skipped; any other source value is assigned. The destination is
  mutated in place and returned.
\<close>

fun plainObject :: "jsval \<Rightarrow> jsobj" where
  "plainObject (JObj d) = d"
| "plainObject _ = []"

lemma size_map_of:
  "map_of ps k = Some v \<Longrightarrow> size v < Suc (size_list (size_prod (\<lambda>_. 0) size) ps)"
  by (induction ps) (auto split: if_splits)

function baseMerge :: "jsobj \<Rightarrow> cfgobj \<Rightarrow> jsobj" where
  "baseMerge object source =
     fold (\<lambda>key object.
            case map_of source key of
              None \<Rightarrow> object
            | Some CUndefined \<Rightarrow> object
            | Some (CObj s) \<Rightarrow>
                AList.update key (JObj (baseMerge (plainObject (lookup object key)) s)) object
            | Some srcValue \<Rightarrow> AList.update key (asValue srcValue) object)
          (keys source) object"
  by pat_completeness auto
termination
  apply (relation "measure (\<lambda>(object, source). size_list (size_prod (\<lambda>_. 0) size) source)")
   apply simp
  apply (auto dest!: size_map_of)
  done

declare baseMerge.simps [simp del]

section \<open>The store\<close>

text \<open>
  Objects that are shared and mutated live in a store. \<open>Transformer.defaultOptions\<close> is a
  static field that holds a reference to one object; the field itself is never
  reassigned.
\<close>

type_synonym addr = nat

datatype pending =
    PendingWrite string string nat
  | PendingRead string jsobj

datatype 'ast argument =
    Value jsval
  | ReadResult 'ast jsval

text \<open>
  The world outside a \<open>Transformer\<close>: the object store, the file system (contents by path,
  and whether a path can be written), and Node's asynchronous machinery: the operations
  started by \<open>fs.writeFile\<close>/\<open>fs.readFile\<close> that have not completed yet, and the log of the
  calls made to callback functions (the function called and its arguments).
\<close>

record 'ast world =
  heap :: "addr \<Rightarrow> jsobj"
  files :: "string \<Rightarrow> string option"
  writable :: "string \<Rightarrow> bool"
  pending :: "pending list"
  invoked :: "(nat \<times> 'ast argument list) list"

definition Transformer_defaultOptions :: addr where
  "Transformer_defaultOptions = 0"

text \<open>The object literal of \<open>transformer.js\<close>, lines 156 to 166.\<close>

definition defaultOptions_literal :: jsobj where
  "defaultOptions_literal =
     [(''transformers'', JObj
         [(''classes'', JBool True),
          (''stringTemplates'', JBool True),
          (''arrowFunctions'', JBool True),
          (''let'', JBool True),
          (''defaultArguments'', JBool True),
          (''objectMethods'', JBool True)]),
      (''formatter'', JBool False)]"

text \<open>Loading the module executes \<open>Transformer.defaultOptions = {...}\<close>.\<close>

definition load_module :: "'ast world \<Rightarrow> 'ast world" where
  "load_module w = w\<lparr>heap := (heap w)(Transformer_defaultOptions := defaultOptions_literal)\<rparr>"

text \<open>\<open>merge(object, source)\<close> on a reference: mutates the object and returns the reference.\<close>

definition merge :: "'ast world \<Rightarrow> addr \<Rightarrow> cfgobj \<Rightarrow> 'ast world \<times> addr" where
  "merge w object source =
     (w\<lparr>heap := (heap w)(object := baseMerge (heap w object) source)\<rparr>, object)"

section \<open>The collaborators\<close>

text \<open>
  The six transformation modules imported by \<open>transformer.js\<close> (lines 8 to 13); a function
  object in \<open>this.transformations\<close> is represented by the name of its import.
\<close>

datatype transformation =
    classTransformation
  | templateStringTransformation
  | arrowFunctionTransformation
  | letTransformation
  | defaultArgsTransformation
  | objectMethodsTransformation

record 'ast parsed =
  parsed_comments :: "jsval list"
  parsed_tokens :: "jsval list"
  parsed_ast :: "'ast option"

text \<open>
  What the program imports and does not define. The syntax tree is a type parameter.
  \<^item> \<open>transform\<close>: the body of each transformation module, \<open>apply(tree)\<close> of the
    specification: it rewrites the tree in place and does not abort.
  \<^item> \<open>emptyObject\<close>: the tree \<open>{}\<close>.
  \<^item> \<open>coffee_compile\<close>: \<open>coffee.compile\<close>; \<open>None\<close> when it throws.
  \<^item> \<open>acorn_parse\<close>: \<open>acorn.parse(js, options)\<close>; it fills the arrays \<open>options.onComment\<close>
    and \<open>options.onToken\<close> and returns the tree, \<open>None\<close> when it throws.
  \<^item> \<open>escodegen_attachComments\<close>, \<open>codeGenerator_generate\<close>, \<open>formatter_format\<close>: the
    text emitter of the specification.
\<close>

record 'ast collaborators =
  transform :: "transformation \<Rightarrow> 'ast \<Rightarrow> 'ast"
  emptyObject :: 'ast
  coffee_compile :: "jsval \<Rightarrow> jsval option"
  acorn_parse :: "jsval \<Rightarrow> jsobj \<Rightarrow> 'ast parsed"
  escodegen_attachComments :: "'ast \<Rightarrow> jsval list \<Rightarrow> jsval list \<Rightarrow> 'ast"
  codeGenerator_generate :: "'ast \<Rightarrow> jsobj \<Rightarrow> string"
  formatter_format :: "string \<Rightarrow> jsval \<Rightarrow> string"

section \<open>\<open>utils/ast-generator.js\<close>\<close>

text \<open>
  \<open>read(js, options)\<close>. The options object is mutated; the function returns it beside
  its result, \<open>{ast, js}\<close> or the error thrown.
\<close>

definition astGenerator_read ::
  "'ast collaborators \<Rightarrow> jsval \<Rightarrow> jsobj \<Rightarrow> jsobj \<times> (error + 'ast \<times> jsval)" where
  "astGenerator_read env js options =
     (let options = AList.update ''ranges'' (JBool True) options;
          options = AList.update ''onComment'' (JArr []) options;
          options = AList.update ''onToken'' (JArr []) options;
          options = AList.update ''plugins'' (JObj [(''jsx'', JBool True)]) options;
          compiled = (if truthy (lookup options ''coffee'') then coffee_compile env js
                      else Some js)
      in case compiled of
           None \<Rightarrow> (options, Inl SyntaxError)
         | Some js \<Rightarrow>
             (let p = acorn_parse env js options;
                  options = AList.update ''onComment'' (JArr (parsed_comments p)) options;
                  options = AList.update ''onToken'' (JArr (parsed_tokens p)) options
              in case parsed_ast p of
                   None \<Rightarrow> (options, Inl SyntaxError)
                 | Some ast' \<Rightarrow>
                     (options,
                      Inr (escodegen_attachComments env ast' (parsed_comments p) (parsed_tokens p), js))))"

text \<open>
  \<open>readFile(file, options)\<close>. With \<open>options.sync\<close> it returns what \<open>read\<close> returns (or
  throws); otherwise it starts \<open>fs.readFile\<close> and returns \<open>undefined\<close> (\<open>None\<close>).
\<close>

definition astGenerator_readFile ::
  "'ast collaborators \<Rightarrow> 'ast world \<Rightarrow> string \<Rightarrow> jsobj
     \<Rightarrow> 'ast world \<times> jsobj \<times> (error + ('ast \<times> jsval) option)" where
  "astGenerator_readFile env w file options =
     (let options = (if lookup options ''coffee'' = JUndefined
                     then AList.update ''coffee'' (JBool (endsWith file ''.coffee'')) options
                     else options)
      in if truthy (lookup options ''sync'') then
           (case files w file of
              None \<Rightarrow> (w, options, Inl IOError)
            | Some js \<Rightarrow>
                (case astGenerator_read env (JStr js) options of
                   (options, Inl e) \<Rightarrow> (w, options, Inl e)
                 | (options, Inr r) \<Rightarrow> (w, options, Inr (Some r))))
         else (w\<lparr>pending := pending w @ [PendingRead file options]\<rparr>, options, Inr None))"

text \<open>
  The arrow function \<open>(js) => {...}\<close> handed to \<open>fs.readFile\<close>, called with the arguments
  \<open>args\<close>: its one parameter \<open>js\<close> is bound to the first of them; \<open>options\<close> is the
  object of the enclosing \<open>readFile\<close> call. The result is the world and the exception
  that escapes, if any.
\<close>

definition readFile_callback ::
  "'ast collaborators \<Rightarrow> jsobj \<Rightarrow> jsval list \<Rightarrow> 'ast world \<Rightarrow> 'ast world \<times> error option" where
  "readFile_callback env options args w =
     (let js = (case args of [] \<Rightarrow> JUndefined | a # _ \<Rightarrow> a)
      in if truthy (lookup options ''callback'') then
           (case astGenerator_read env js options of
              (_, Inl e) \<Rightarrow> (w, Some e)
            | (_, Inr (ast', js)) \<Rightarrow>
                (case lookup options ''callback'' of
                   JFun c \<Rightarrow> (w\<lparr>invoked := invoked w @ [(c, [ReadResult ast' js])]\<rparr>, None)
                 | _ \<Rightarrow> (w, Some TypeError)))
         else (w, None))"

section \<open>Node's \<open>fs\<close>\<close>

text \<open>
  An asynchronous operation completes later, from the event loop: \<open>fs.writeFile\<close> writes
  and calls its callback once, with \<open>null\<close> or with the error; \<open>fs.readFile\<close> calls its
  callback with \<open>(null, data)\<close> or with \<open>(err, undefined)\<close>.
\<close>

fun complete ::
  "'ast collaborators \<Rightarrow> pending \<Rightarrow> 'ast world \<Rightarrow> 'ast world \<times> error option" where
  "complete env (PendingWrite filename data c) w =
     (if writable w filename
      then (w\<lparr>files := (files w)(filename := Some data),
               invoked := invoked w @ [(c, [Value JNull])]\<rparr>, None)
      else (w\<lparr>invoked := invoked w @ [(c, [Value (JError IOError)])]\<rparr>, None))"
| "complete env (PendingRead file options) w =
     (case files w file of
        Some data \<Rightarrow> readFile_callback env options [JNull, JStr data] w
      | None \<Rightarrow> readFile_callback env options [JError IOError, JUndefined] w)"

section \<open>\<open>transformer.js\<close>\<close>

record 'ast transformer =
  sourceCode :: jsval
  ast :: 'ast
  options :: addr
  transformations :: "transformation list"

definition andThen :: "error + 'a \<Rightarrow> ('a \<Rightarrow> error + 'b) \<Rightarrow> error + 'b" where
  "andThen r f = (case r of Inl e \<Rightarrow> Inl e | Inr x \<Rightarrow> f x)"

text \<open>
  \<open>shouldTransform(key)\<close>: the value of
  \<open>typeof this.options.transformers[key] !== 'undefined' && this.options.transformers[key]\<close>.
\<close>

definition shouldTransform ::
  "'ast world \<Rightarrow> 'ast transformer \<Rightarrow> string \<Rightarrow> error + jsval" where
  "shouldTransform w this key =
     (case getProp (lookup (heap w (options this)) ''transformers'') key of
        None \<Rightarrow> Inl TypeError
      | Some v \<Rightarrow> Inr (if v \<noteq> JUndefined then v else JBool False))"

definition doTransform ::
  "'ast world \<Rightarrow> string \<Rightarrow> transformation \<Rightarrow> 'ast transformer \<Rightarrow> error + 'ast transformer" where
  "doTransform w key transformation this =
     andThen (shouldTransform w this key) (\<lambda>v.
       if truthy v
       then Inr (this\<lparr>transformations := transformations this @ [transformation]\<rparr>)
       else Inr this)"

definition prepareTransformations ::
  "'ast world \<Rightarrow> 'ast transformer \<Rightarrow> error + 'ast transformer" where
  "prepareTransformations w this =
     andThen (doTransform w ''classes'' classTransformation this) (\<lambda>this.
     andThen (doTransform w ''stringTemplates'' templateStringTransformation this) (\<lambda>this.
     andThen (doTransform w ''arrowFunctions'' arrowFunctionTransformation this) (\<lambda>this.
     andThen (doTransform w ''let'' letTransformation this) (\<lambda>this.
     andThen (doTransform w ''defaultArguments'' defaultArgsTransformation this) (\<lambda>this.
     doTransform w ''objectMethods'' objectMethodsTransformation this)))))"

text \<open>
  \<open>constructor(options = {})\<close>: \<open>None\<close> is a call without the argument. The world is
  returned as the constructor leaves it, also when it throws.
\<close>

definition constructor ::
  "'ast collaborators \<Rightarrow> 'ast world \<Rightarrow> cfgobj option
     \<Rightarrow> 'ast world \<times> (error + 'ast transformer)" where
  "constructor env w arg =
     (let source = (case arg of None \<Rightarrow> [] | Some c \<Rightarrow> c);
          (w, merged) = merge w Transformer_defaultOptions source;
          this = \<lparr>sourceCode = JStr [], ast = emptyObject env, options = merged,
                  transformations = []\<rparr>
      in (w, prepareTransformations w this))"

text \<open>\<open>readFile(filename)\<close>\<close>

definition readFile ::
  "'ast collaborators \<Rightarrow> 'ast world \<Rightarrow> 'ast transformer \<Rightarrow> string
     \<Rightarrow> 'ast world \<times> (error + 'ast transformer)" where
  "readFile env w this filename =
     (case astGenerator_readFile env w filename
             [(''sync'', JBool True), (''ecmaVersion'', JNum 6)] of
        (w, _, Inl e) \<Rightarrow> (w, Inl e)
      | (w, _, Inr None) \<Rightarrow> (w, Inl TypeError)
      | (w, _, Inr (Some (ast', js))) \<Rightarrow> (w, Inr (this\<lparr>ast := ast', sourceCode := js\<rparr>)))"

text \<open>\<open>read(string)\<close>: \<open>this.options\<close> itself is handed to the tree provider.\<close>

definition read ::
  "'ast collaborators \<Rightarrow> 'ast world \<Rightarrow> 'ast transformer \<Rightarrow> jsval
     \<Rightarrow> 'ast world \<times> (error + 'ast transformer)" where
  "read env w this string =
     (case astGenerator_read env string (heap w (options this)) of
        (opts, r) \<Rightarrow>
          (w\<lparr>heap := (heap w)(options this := opts)\<rparr>,
           case r of
             Inl e \<Rightarrow> Inl e
           | Inr (ast', js) \<Rightarrow> Inr (this\<lparr>ast := ast', sourceCode := js\<rparr>)))"

text \<open>\<open>applyTransformation(transformation)\<close>, for any function on trees.\<close>

definition applyTransformation ::
  "('ast \<Rightarrow> 'ast) \<Rightarrow> 'ast transformer \<Rightarrow> 'ast transformer" where
  "applyTransformation transformation this = this\<lparr>ast := transformation (ast this)\<rparr>"

text \<open>The \<open>for\<close> loop of \<open>applyTransformations\<close>, from index \<open>i\<close>.\<close>

function applyTransformations_loop ::
  "'ast collaborators \<Rightarrow> nat \<Rightarrow> 'ast transformer \<Rightarrow> 'ast transformer" where
  "applyTransformations_loop env i this =
     (if i < length (transformations this)
      then applyTransformations_loop env (Suc i)
             (applyTransformation (transform env (transformations this ! i)) this)
      else this)"
  by pat_completeness auto
termination
  by (relation "measure (\<lambda>(env, i, this). length (transformations this) - i)")
     (auto simp: applyTransformation_def)

declare applyTransformations_loop.simps [simp del]

definition applyTransformations ::
  "'ast collaborators \<Rightarrow> 'ast transformer \<Rightarrow> 'ast transformer" where
  "applyTransformations env this = applyTransformations_loop env 0 this"

text \<open>
  \<open>out()\<close>: \<open>generated\<close> is the call of the code generator (lines 118 to 127), then
  comes the test of \<open>this.options.formatter\<close>.
\<close>

definition generated :: "'ast collaborators \<Rightarrow> 'ast transformer \<Rightarrow> string" where
  "generated env this =
     codeGenerator_generate env (ast this)
       [(''comment'', JBool True),
        (''format'', JObj
           [(''indent'', JObj [(''style'', JStr ''  '')]),
            (''preserveBlankLines'', JBool True)]),
        (''sourceCode'', sourceCode this)]"

definition out :: "'ast collaborators \<Rightarrow> 'ast world \<Rightarrow> 'ast transformer \<Rightarrow> string" where
  "out env w this =
     (let result = generated env this;
          formatter = lookup (heap w (options this)) ''formatter''
      in if formatter \<noteq> JBool False then formatter_format env result formatter
         else result)"

text \<open>
  \<open>writeFile(filename, callback)\<close>: \<open>fs.writeFile\<close> starts an asynchronous write,
  \<open>fs.writeFileSync\<close> writes before it returns or throws.
\<close>

definition writeFile ::
  "'ast collaborators \<Rightarrow> 'ast world \<Rightarrow> 'ast transformer \<Rightarrow> string \<Rightarrow> jsval
     \<Rightarrow> 'ast world \<times> (error + unit)" where
  "writeFile env w this filename callback =
     (let code = out env w this
      in case callback of
           JFun c \<Rightarrow> (w\<lparr>pending := pending w @ [PendingWrite filename code c]\<rparr>, Inr ())
         | _ \<Rightarrow>
             (if writable w filename
              then (w\<lparr>files := (files w)(filename := Some code)\<rparr>, Inr ())
              else (w, Inl IOError)))"


section \<open>Calls on a \<open>Transformer\<close>\<close>

text \<open>
  A method call, and what it does to the world and to the object it is called on. The
  outcome is the value returned (\<open>undefined\<close> for the methods that return nothing) or the
  error thrown.
\<close>

datatype 'ast call =
    ReadFile string
  | Read jsval
  | ApplyTransformation "'ast \<Rightarrow> 'ast"
  | ApplyTransformations
  | Out
  | WriteFile string jsval

fun invoke ::
  "'ast collaborators \<Rightarrow> 'ast call \<Rightarrow> 'ast world \<times> 'ast transformer
     \<Rightarrow> ('ast world \<times> 'ast transformer) \<times> (error + jsval)" where
  "invoke env (ReadFile filename) (w, this) =
     (case readFile env w this filename of
        (w', Inl e) \<Rightarrow> ((w', this), Inl e)
      | (w', Inr this') \<Rightarrow> ((w', this'), Inr JUndefined))"
| "invoke env (Read string) (w, this) =
     (case read env w this string of
        (w', Inl e) \<Rightarrow> ((w', this), Inl e)
      | (w', Inr this') \<Rightarrow> ((w', this'), Inr JUndefined))"
| "invoke env (ApplyTransformation transformation) (w, this) =
     ((w, applyTransformation transformation this), Inr JUndefined)"
| "invoke env ApplyTransformations (w, this) =
     ((w, applyTransformations env this), Inr JUndefined)"
| "invoke env Out (w, this) = ((w, this), Inr (JStr (out env w this)))"
| "invoke env (WriteFile filename callback) (w, this) =
     (case writeFile env w this filename callback of
        (w', Inl e) \<Rightarrow> ((w', this), Inl e)
      | (w', Inr u) \<Rightarrow> ((w', this), Inr JUndefined))"

text \<open>A sequence of calls; a caller may catch an error and go on.\<close>

fun invoke_all ::
  "'ast collaborators \<Rightarrow> 'ast call list \<Rightarrow> 'ast world \<times> 'ast transformer
     \<Rightarrow> 'ast world \<times> 'ast transformer" where
  "invoke_all env [] s = s"
| "invoke_all env (c # cs) s = invoke_all env cs (fst (invoke env c s))"

text \<open>
  The event loop, once the running code has returned: the pending operations complete
  in order; an exception that escapes a callback ends the process.
\<close>

fun complete_all ::
  "'ast collaborators \<Rightarrow> pending list \<Rightarrow> 'ast world \<Rightarrow> 'ast world \<times> error option" where
  "complete_all env [] w = (w, None)"
| "complete_all env (p # ps) w =
     (case complete env p w of
        (w', Some e) \<Rightarrow> (w', Some e)
      | (w', None) \<Rightarrow> complete_all env ps w')"

definition event_loop ::
  "'ast collaborators \<Rightarrow> 'ast world \<Rightarrow> 'ast world \<times> error option" where
  "event_loop env w = complete_all env (pending w) (w\<lparr>pending := []\<rparr>)"

section \<open>The pass list of the specification\<close>

text \<open>
  The priority order of the specification (Classes, TemplateStrings, ArrowFunctions,
  BlockScopedBindings, DefaultArguments, ObjectMethodShorthand), the configuration key
  that the code pairs with each pass (lines 48 to 53), and the passes that an options
  object enables.
\<close>

definition priority_order :: "transformation list" where
  "priority_order =
     [classTransformation, templateStringTransformation, arrowFunctionTransformation,
      letTransformation, defaultArgsTransformation, objectMethodsTransformation]"

fun option_key :: "transformation \<Rightarrow> string" where
  "option_key classTransformation = ''classes''"
| "option_key templateStringTransformation = ''stringTemplates''"
| "option_key arrowFunctionTransformation = ''arrowFunctions''"
| "option_key letTransformation = ''let''"
| "option_key defaultArgsTransformation = ''defaultArguments''"
| "option_key objectMethodsTransformation = ''objectMethods''"

definition enabled :: "jsobj \<Rightarrow> transformation \<Rightarrow> bool" where
  "enabled opts p =
     (case getProp (lookup opts ''transformers'') (option_key p) of
        None \<Rightarrow> False
      | Some v \<Rightarrow> truthy v)"





section \<open>Sample collaborators\<close>

text \<open>
  Collaborators on which the program can be run: the tree is the list of what happened
  to it, the parsed text first, then the name of each pass applied.
\<close>

fun toText :: "jsval \<Rightarrow> string" where
  "toText (JStr s) = s"
| "toText JNull = ''null''"
| "toText JUndefined = ''undefined''"
| "toText (JBool b) = (if b then ''true'' else ''false'')"
| "toText _ = ''[object Object]''"

fun sample_parse :: "jsval \<Rightarrow> string list option" where
  "sample_parse (JError e) = None"
| "sample_parse js = Some [toText js]"

definition sample_collaborators :: "string list collaborators" where
  "sample_collaborators =
     \<lparr>transform = (\<lambda>p a. a @ [option_key p]),
      emptyObject = [],
      coffee_compile = (\<lambda>js. None),
      acorn_parse = (\<lambda>js opts.
        \<lparr>parsed_comments = [], parsed_tokens = [], parsed_ast = sample_parse js\<rparr>),
      escodegen_attachComments = (\<lambda>a cs ts. a),
      codeGenerator_generate = (\<lambda>a opts. concat (map (\<lambda>l. l @ ''; '') a)),
      formatter_format = (\<lambda>text opts. ''/* formatted */ '' @ text)\<rparr>"

text \<open>A world with the module loaded, no files, and every path writable.\<close>

definition sample_world :: "string list world" where
  "sample_world =
     load_module \<lparr>heap = (\<lambda>a. []), files = (\<lambda>p. None), writable = (\<lambda>p. True),
                  pending = [], invoked = []\<rparr>"

text \<open>The object constructed without an argument when the module has just been loaded.\<close>

definition default_transformer :: "string list transformer" where
  "default_transformer =
     \<lparr>sourceCode = JStr [], ast = [], options = Transformer_defaultOptions,
      transformations = priority_order\<rparr>"

text \<open>\<open>{transformers: {arrowFunctions: false, let: 0}}\<close> and the object constructed with it.\<close>

definition sample_config :: cfgobj where
  "sample_config = [(''transformers'', CObj [(''arrowFunctions'', CBool False), (''let'', CNum 0)])]"

definition sample_transformer :: "string list transformer" where
  "sample_transformer =
     \<lparr>sourceCode = JStr [], ast = [], options = Transformer_defaultOptions,
      transformations =
        [classTransformation, templateStringTransformation, defaultArgsTransformation,
         objectMethodsTransformation]\<rparr>"



text \<open>The keys that \<open>read\<close> of \<open>utils/ast-generator.js\<close> writes into its options.\<close>

definition parser_keys :: "string list" where
  "parser_keys = [''ranges'', ''onComment'', ''onToken'', ''plugins'']"

text \<open>
  More sample data: \<open>{formatter: {indent: 4}}\<close>; a world in which no path can be written;
  the object after \<open>read('x => x')\<close>; two configurations with overrides; a world with the
  file \<open>a.js\<close>; the options \<open>{callback: f}\<close> of an asynchronous \<open>readFile\<close>.
\<close>

definition formatter_on_config :: cfgobj where
  "formatter_on_config = [(''formatter'', CObj [(''indent'', CNum 4)])]"

definition unwritable_world :: "string list world" where
  "unwritable_world = sample_world\<lparr>writable := (\<lambda>p. False)\<rparr>"


definition overrides_config :: cfgobj where
  "overrides_config =
     [(''transformers'', CObj [(''arrowFunctions'', CBool False)]),
      (''formatter'', CObj [(''indent'', CNum 4)])]"

definition classes_off_config :: cfgobj where
  "classes_off_config = [(''transformers'', CObj [(''classes'', CBool False)])]"

definition files_world :: "string list world" where
  "files_world =
     sample_world\<lparr>files := (\<lambda>p. if p = ''a.js'' then Some ''var a = 1;'' else None)\<rparr>"

definition callback_options :: jsobj where
  "callback_options = [(''callback'', JFun 7)]"

section \<open>What \<open>merge\<close> leaves under a key\<close>

lemma lookup_update:
  "lookup (AList.update k v obj) k' = (if k' = k then v else lookup obj k')"
  by (simp add: lookup_def update_conv')






section \<open>The loop of \<open>applyTransformations\<close>\<close>

lemma loop_fold:
  "applyTransformations_loop env i this =
     this\<lparr>ast := fold (transform env) (drop i (transformations this)) (ast this)\<rparr>"
proof (induction env i this rule: applyTransformations_loop.induct)
  case (1 env i this)
  show ?case
  proof (cases "i < length (transformations this)")
    case True
    then have d: "drop i (transformations this) =
        transformations this ! i # drop (Suc i) (transformations this)"
      by (simp add: Cons_nth_drop_Suc)
    show ?thesis
      using True 1 d
      by (subst applyTransformations_loop.simps) (simp add: applyTransformation_def)
  next
    case False
    then show ?thesis
      by (subst applyTransformations_loop.simps) simp
  qed
qed

lemma applyTransformations_fold:
  "applyTransformations env this =
     this\<lparr>ast := fold (transform env) (transformations this) (ast this)\<rparr>"
  by (simp add: applyTransformations_def loop_fold)

section \<open>The pass list built by the constructor\<close>

lemma doTransform_cases:
  "doTransform w key p this =
     (case getProp (lookup (heap w (options this)) ''transformers'') key of
        None \<Rightarrow> Inl TypeError
      | Some v \<Rightarrow>
          Inr (this\<lparr>transformations :=
                      transformations this @ (if truthy v then [p] else [])\<rparr>))"
  by (auto simp: doTransform_def shouldTransform_def andThen_def split: option.splits)

lemma prepareTransformations_Inr:
  assumes "getProp (lookup (heap w (options this)) ''transformers'') ''classes'' \<noteq> None"
  shows "prepareTransformations w this =
     Inr (this\<lparr>transformations := transformations this @
            filter (enabled (heap w (options this))) priority_order\<rparr>)"
  using assms
  by (cases "lookup (heap w (options this)) ''transformers''")
     (simp_all add: prepareTransformations_def doTransform_cases andThen_def enabled_def
        priority_order_def)

lemma prepareTransformations_Inl:
  assumes "getProp (lookup (heap w (options this)) ''transformers'') ''classes'' = None"
  shows "prepareTransformations w this = Inl TypeError"
  using assms
  by (cases "lookup (heap w (options this)) ''transformers''")
     (simp_all add: prepareTransformations_def doTransform_cases andThen_def)

lemma constructor_world:
  "fst (constructor env w arg) =
     w\<lparr>heap := (heap w)(Transformer_defaultOptions :=
          baseMerge (heap w Transformer_defaultOptions)
            (case arg of None \<Rightarrow> [] | Some c \<Rightarrow> c))\<rparr>"
  by (simp add: constructor_def merge_def Let_def)

lemma constructor_Inr:
  assumes "constructor env w arg = (w', Inr this)"
  shows "this = \<lparr>sourceCode = JStr [], ast = emptyObject env,
                  options = Transformer_defaultOptions,
                  transformations =
                    filter (enabled (heap w' Transformer_defaultOptions)) priority_order\<rparr>"
proof -
  let ?t0 = "\<lparr>sourceCode = JStr [], ast = emptyObject env,
               options = Transformer_defaultOptions, transformations = []\<rparr>"
  from assms have p: "prepareTransformations w' ?t0 = Inr this"
    by (auto simp: constructor_def merge_def Let_def)
  have ok: "getProp (lookup (heap w' (options ?t0)) ''transformers'') ''classes'' \<noteq> None"
    using p prepareTransformations_Inl [of w' ?t0] by auto
  show ?thesis
    using p prepareTransformations_Inr [OF ok] by simp
qed

lemmas run_defs =
  constructor_def merge_def load_module_def baseMerge.simps keys_def lookup_def
  defaultOptions_literal_def Transformer_defaultOptions_def prepareTransformations_def
  doTransform_def shouldTransform_def andThen_def applyTransformations_fold
  sample_world_def sample_collaborators_def sample_config_def sample_transformer_def
  default_transformer_def priority_order_def

section \<open>The claims\<close>

text \<open>
  C1. For every configuration with which a \<open>Transformer\<close> is constructed,
  \<open>this.transformations\<close> is the list of the passes that the merged options enable at
  construction, in the priority order Classes, TemplateStrings, ArrowFunctions,
  BlockScopedBindings, DefaultArguments, ObjectMethodShorthand, without repetition; and
  \<open>applyTransformations\<close>, on whatever tree and source text a later \<open>read\<close> has installed,
  applies exactly these passes, one after the other in that order, to that tree, and
  changes nothing else.
\<close>

theorem applyTransformations_enabled_passes_in_order:
  assumes "constructor env w arg = (w', Inr this)"
  shows "transformations this = filter (enabled (heap w' (options this))) priority_order
       \<and> distinct (transformations this)
       \<and> applyTransformations env (this\<lparr>ast := a, sourceCode := js\<rparr>) =
           this\<lparr>ast := fold (transform env)
                          (filter (enabled (heap w' (options this))) priority_order) a,
                sourceCode := js\<rparr>"
proof -
  note t = constructor_Inr [OF assms]
  have 1: "transformations this = filter (enabled (heap w' (options this))) priority_order"
    by (subst (1 2) t) simp
  have 2: "distinct (transformations this)"
    unfolding 1 by (rule distinct_filter) (simp add: priority_order_def)
  show ?thesis
    using 1 2 by (simp add: applyTransformations_fold)
qed

text \<open>
  An instance: with \<open>{transformers: {arrowFunctions: false, let: 0}}\<close> four passes are
  listed, and on the tree of \<open>x => x\<close> each of them runs once, in order.
\<close>

theorem applyTransformations_enabled_passes_in_order_witness:
  "constructor sample_collaborators sample_world (Some sample_config) =
     (fst (constructor sample_collaborators sample_world (Some sample_config)),
      Inr sample_transformer)
   \<and> applyTransformations sample_collaborators
       (sample_transformer\<lparr>ast := [''x => x''], sourceCode := JStr ''x => x''\<rparr>) =
     sample_transformer
       \<lparr>ast := [''x => x'', ''classes'', ''stringTemplates'', ''defaultArguments'',
                ''objectMethods''],
        sourceCode := JStr ''x => x''\<rparr>"
proof -
  have h: "constructor sample_collaborators sample_world (Some sample_config) =
     (fst (constructor sample_collaborators sample_world (Some sample_config)),
      Inr sample_transformer)"
    by (simp add: run_defs)
  have e: "filter (enabled (heap (fst (constructor sample_collaborators sample_world
              (Some sample_config))) (options sample_transformer))) priority_order =
           [classTransformation, templateStringTransformation, defaultArgsTransformation,
            objectMethodsTransformation]"
    by (simp add: run_defs enabled_def priority_order_def)
  show ?thesis
    using h applyTransformations_enabled_passes_in_order
      [OF h, where a = "[''x => x'']" and js = "JStr ''x => x''"]
    unfolding e
    by (simp add: sample_collaborators_def sample_transformer_def)
qed

















lemma astGenerator_read_keeps:
  "key \<notin> set parser_keys \<Longrightarrow>
   lookup (fst (astGenerator_read env js opts)) key = lookup opts key"
  by (auto simp: astGenerator_read_def parser_keys_def Let_def lookup_update
      split: option.splits)

lemma read_keeps:
  "key \<notin> set parser_keys \<Longrightarrow>
   lookup (heap (fst (read env w this string)) a) key = lookup (heap w a) key"
  using astGenerator_read_keeps [of key env string "heap w (options this)"]
  by (auto simp: read_def split: prod.splits)

lemma read_options:
  "read env w this string = (w', Inr this') \<Longrightarrow> options this' = options this"
  by (auto simp: read_def split: prod.splits sum.splits)

lemma readFile_heap: "heap (fst (readFile env w this filename)) = heap w"
  by (auto simp: readFile_def astGenerator_readFile_def Let_def
      split: prod.splits sum.splits option.splits)

lemma readFile_options:
  "readFile env w this filename = (w', Inr this') \<Longrightarrow> options this' = options this"
  by (auto simp: readFile_def split: prod.splits sum.splits option.splits)

lemma writeFile_heap: "heap (fst (writeFile env w this filename callback)) = heap w"
  by (auto simp: writeFile_def Let_def split: jsval.splits)

lemma invoke_keeps:
  assumes "key \<notin> set parser_keys"
  shows "options (snd (fst (invoke env c (w, this)))) = options this
       \<and> lookup (heap (fst (fst (invoke env c (w, this)))) a) key = lookup (heap w a) key"
proof (cases c)
  case (ReadFile filename)
  then show ?thesis
    using readFile_heap [of env w this filename]
    by (auto split: prod.splits sum.splits dest: readFile_options)
next
  case (Read string)
  then show ?thesis
    using read_keeps [OF assms, of env w this string a]
    by (auto split: prod.splits sum.splits dest: read_options)
next
  case (WriteFile filename callback)
  then show ?thesis
    using writeFile_heap [of env w this filename callback]
    by (auto split: prod.splits sum.splits)
qed (simp_all add: applyTransformation_def applyTransformations_fold)

lemma invoke_all_keeps:
  assumes "key \<notin> set parser_keys"
  shows "options (snd (invoke_all env calls (w, this))) = options this
       \<and> lookup (heap (fst (invoke_all env calls (w, this))) a) key = lookup (heap w a) key"
proof (induction calls arbitrary: w this)
  case Nil
  show ?case by simp
next
  case (Cons c cs)
  obtain w1 this1 where s: "fst (invoke env c (w, this)) = (w1, this1)"
    by (cases "fst (invoke env c (w, this))")
  from invoke_keeps [OF assms, of env c w this a] s
  have "options this1 = options this" "lookup (heap w1 a) key = lookup (heap w a) key"
    by simp_all
  with Cons.IH [of w1 this1] s show ?case by simp
qed

text \<open>
  C4. For every sequence of \<open>readFile\<close>, \<open>read\<close>, \<open>applyTransformation\<close>,
  \<open>applyTransformations\<close>, \<open>out\<close> and \<open>writeFile\<close> calls on a \<open>Transformer\<close>, in every
  world, the object keeps the reference to its options, and the configuration in them,
  the \<open>transformers\<close> entry with the six flags and the \<open>formatter\<close> setting, is after
  the calls what it was before. (The only writes to the options object are those of
  \<open>read\<close>, to the keys \<open>ranges\<close>, \<open>onComment\<close>, \<open>onToken\<close> and \<open>plugins\<close>.)
\<close>

theorem configuration_unchanged_by_calls:
  "options (snd (invoke_all env calls (w, this))) = options this
   \<and> lookup (heap (fst (invoke_all env calls (w, this))) (options this)) ''transformers''
       = lookup (heap w (options this)) ''transformers''
   \<and> lookup (heap (fst (invoke_all env calls (w, this))) (options this)) ''formatter''
       = lookup (heap w (options this)) ''formatter''"
  using invoke_all_keeps [of "''transformers''" env calls w this "options this"]
    invoke_all_keeps [of "''formatter''" env calls w this "options this"]
  by (simp add: parser_keys_def)

text \<open>
  C10. \<open>applyTransformation\<close>, for every function on trees, and \<open>applyTransformations\<close>
  change the \<open>ast\<close> field only: the \<open>sourceCode\<close>, the \<open>options\<close> reference and the
  \<open>transformations\<close> list of the object are unchanged, and so is the world, the
  options object in the store included.
\<close>

theorem applyTransformations_frame:
  "applyTransformation transformation this = this\<lparr>ast := transformation (ast this)\<rparr>
   \<and> sourceCode (applyTransformation transformation this) = sourceCode this
   \<and> options (applyTransformation transformation this) = options this
   \<and> transformations (applyTransformation transformation this) = transformations this
   \<and> applyTransformations env this =
       this\<lparr>ast := fold (transform env) (transformations this) (ast this)\<rparr>
   \<and> sourceCode (applyTransformations env this) = sourceCode this
   \<and> options (applyTransformations env this) = options this
   \<and> transformations (applyTransformations env this) = transformations this
   \<and> fst (fst (invoke env (ApplyTransformation transformation) (w, this))) = w
   \<and> fst (fst (invoke env ApplyTransformations (w, this))) = w"
  by (simp add: applyTransformation_def applyTransformations_fold)

text \<open>
  C6. For every tree and every configuration, \<open>out\<close> returns the text of the code
  generator unchanged when \<open>this.options.formatter\<close> is \<open>false\<close>, and the result of the
  formatter on that text, called with the option's value, when the option is anything
  else.
\<close>

theorem out_formats_unless_formatter_false:
  "out env w this =
     (if lookup (heap w (options this)) ''formatter'' = JBool False
      then generated env this
      else formatter_format env (generated env this)
             (lookup (heap w (options this)) ''formatter''))"
  by (simp add: out_def Let_def)

text \<open>
  Instances: the default options, and options merged with \<open>{formatter: {indent: 4}}\<close>.
\<close>

theorem out_formats_unless_formatter_false_witness:
  "out sample_collaborators sample_world (default_transformer\<lparr>ast := [''x => x'']\<rparr>)
     = ''x => x; ''
   \<and> out sample_collaborators
         (fst (constructor sample_collaborators sample_world (Some formatter_on_config)))
         (default_transformer\<lparr>ast := [''x => x'']\<rparr>)
     = ''/* formatted */ x => x; ''"
  using out_formats_unless_formatter_false
          [of sample_collaborators sample_world "default_transformer\<lparr>ast := [''x => x'']\<rparr>"]
        out_formats_unless_formatter_false
          [of sample_collaborators
              "fst (constructor sample_collaborators sample_world (Some formatter_on_config))"
              "default_transformer\<lparr>ast := [''x => x'']\<rparr>"]
  by (simp add: run_defs generated_def formatter_on_config_def)

lemma unchanged_pending: "pending w = [] \<Longrightarrow> w\<lparr>pending := []\<rparr> = w"
  by (cases w) simp



lemma sample_world_fields:
  "pending sample_world = []" "invoked sample_world = []" "writable sample_world p"
  "pending unwritable_world = []" "invoked unwritable_world = []"
  "\<not> writable unwritable_world p"
  by (simp_all add: sample_world_def unwritable_world_def load_module_def)



text \<open>
  C8, on the code. What the caller's callback receives from an asynchronous
  \<open>readFile\<close> does not depend on the contents of the file: the function handed to
  \<open>fs.readFile\<close> binds its one parameter to the error argument. With the sample
  collaborators a read of \<open>a.js\<close>, which holds \<open>var a = 1;\<close>, calls the callback with the
  parse of \<open>null\<close>; a read of the missing \<open>b.js\<close> calls no callback, and the parser's
  error on the \<open>Error\<close> object escapes from the event loop.
\<close>

theorem readFile_callback_ignores_file_contents:
  "invoked (fst (complete env (PendingRead file opts)
                   (w\<lparr>files := (files w)(file := Some data)\<rparr>))) =
   invoked (fst (complete env (PendingRead file opts)
                   (w\<lparr>files := (files w)(file := Some data')\<rparr>)))
   \<and> astGenerator_readFile sample_collaborators files_world ''a.js'' callback_options =
       (files_world\<lparr>pending :=
          [PendingRead ''a.js'' [(''callback'', JFun 7), (''coffee'', JBool False)]]\<rparr>,
        [(''callback'', JFun 7), (''coffee'', JBool False)], Inr None)
   \<and> event_loop sample_collaborators
        (fst (astGenerator_readFile sample_collaborators files_world ''a.js'' callback_options))
      = (files_world\<lparr>invoked := [(7, [ReadResult [''null''] JNull])]\<rparr>, None)
   \<and> event_loop sample_collaborators
        (fst (astGenerator_readFile sample_collaborators files_world ''b.js'' callback_options))
      = (files_world, Some SyntaxError)"
proof -
  have 1: "invoked (fst (complete env (PendingRead file opts)
                   (w\<lparr>files := (files w)(file := Some data)\<rparr>))) =
   invoked (fst (complete env (PendingRead file opts)
                   (w\<lparr>files := (files w)(file := Some data')\<rparr>)))"
    by (simp add: readFile_callback_def Let_def split: prod.splits sum.splits jsval.splits)
  have 2: "astGenerator_readFile sample_collaborators files_world ''a.js'' callback_options =
       (files_world\<lparr>pending :=
          [PendingRead ''a.js'' [(''callback'', JFun 7), (''coffee'', JBool False)]]\<rparr>,
        [(''callback'', JFun 7), (''coffee'', JBool False)], Inr None)"
    by (simp add: astGenerator_readFile_def callback_options_def lookup_def endsWith_def
        files_world_def sample_world_fields Let_def)
  have 3: "event_loop sample_collaborators
        (fst (astGenerator_readFile sample_collaborators files_world ''a.js'' callback_options))
      = (files_world\<lparr>invoked := [(7, [ReadResult [''null''] JNull])]\<rparr>, None)"
    unfolding 2
    by (simp add: event_loop_def readFile_callback_def astGenerator_read_def lookup_def
        files_world_def sample_world_fields sample_collaborators_def unchanged_pending)
  have 4: "event_loop sample_collaborators
        (fst (astGenerator_readFile sample_collaborators files_world ''b.js'' callback_options))
      = (files_world, Some SyntaxError)"
    by (simp add: astGenerator_readFile_def callback_options_def endsWith_def Let_def
        event_loop_def readFile_callback_def astGenerator_read_def lookup_def
        files_world_def sample_world_fields sample_collaborators_def unchanged_pending)
  from 1 2 3 4 show ?thesis by blast
qed

text \<open>
  C9. The constructor writes the merged options into the object that
  \<open>Transformer.defaultOptions\<close> refers to, and \<open>this.options\<close> is that same reference. So
  there are overrides (here \<open>{transformers: {classes: false}}\<close>) such that, after a
  construction with them, a construction without an argument yields a pass list other
  than the one it yields when the module has just been loaded.
\<close>

theorem constructor_mutates_defaultOptions:
  "fst (constructor env w arg) =
     w\<lparr>heap := (heap w)(Transformer_defaultOptions :=
          baseMerge (heap w Transformer_defaultOptions)
            (case arg of None \<Rightarrow> [] | Some c \<Rightarrow> c))\<rparr>
   \<and> (case snd (constructor env w arg) of
         Inl e \<Rightarrow> True
       | Inr this \<Rightarrow> options this = Transformer_defaultOptions)
   \<and> (\<exists>overrides this1 this2.
         snd (constructor env (load_module w) None) = Inr this1
       \<and> snd (constructor env (fst (constructor env (load_module w) (Some overrides))) None)
           = Inr this2
       \<and> transformations this2 \<noteq> transformations this1)"
proof -
  have 1: "case snd (constructor env w arg) of
         Inl e \<Rightarrow> True
       | Inr this \<Rightarrow> options this = Transformer_defaultOptions"
  proof (cases "snd (constructor env w arg)")
    case (Inr this)
    then have "constructor env w arg = (fst (constructor env w arg), Inr this)"
      by (simp add: prod_eq_iff)
    from constructor_Inr [OF this] Inr show ?thesis
      by simp
  qed simp
  let ?t1 = "\<lparr>sourceCode = JStr [], ast = emptyObject env,
               options = Transformer_defaultOptions, transformations = priority_order\<rparr>"
  let ?t2 = "\<lparr>sourceCode = JStr [], ast = emptyObject env,
               options = Transformer_defaultOptions,
               transformations = [templateStringTransformation, arrowFunctionTransformation,
                 letTransformation, defaultArgsTransformation, objectMethodsTransformation]\<rparr>"
  have 2: "snd (constructor env (load_module w) None) = Inr ?t1"
    by (simp add: run_defs)
  have 3: "snd (constructor env (fst (constructor env (load_module w)
              (Some classes_off_config))) None) = Inr ?t2"
    by (simp add: run_defs classes_off_config_def)
  have "transformations ?t2 \<noteq> transformations ?t1"
    by (simp add: priority_order_def)
  with 2 3 have "\<exists>overrides this1 this2.
         snd (constructor env (load_module w) None) = Inr this1
       \<and> snd (constructor env (fst (constructor env (load_module w) (Some overrides))) None)
           = Inr this2
       \<and> transformations this2 \<noteq> transformations this1"
    by blast
  with 1 constructor_world [of env w arg] show ?thesis
    by blast
qed

text \<open>
  When the module has just been loaded, a construction without an argument leaves the
  defaults as they are, lists all six passes and has the formatter off.
\<close>

lemma construction_on_loaded_module:
  "constructor env (load_module w) None =
     (load_module w,
      Inr \<lparr>sourceCode = JStr [], ast = emptyObject env, options = Transformer_defaultOptions,
            transformations = priority_order\<rparr>)
   \<and> lookup (heap (load_module w) Transformer_defaultOptions) ''formatter'' = JBool False"
  by (simp add: run_defs)

text \<open>
  C5, on the code. After \<open>new Transformer({transformers: {arrowFunctions: false},
  formatter: {indent: 4}})\<close>, a \<open>new Transformer()\<close> has five passes, without the arrow
  functions pass, and its formatter is on.
\<close>

theorem second_construction_inherits_overrides:
  "snd (constructor sample_collaborators
         (fst (constructor sample_collaborators sample_world (Some overrides_config))) None)
     = Inr (default_transformer\<lparr>transformations :=
              [classTransformation, templateStringTransformation, letTransformation,
               defaultArgsTransformation, objectMethodsTransformation]\<rparr>)
   \<and> lookup (heap (fst (constructor sample_collaborators
                (fst (constructor sample_collaborators sample_world (Some overrides_config)))
                None)) Transformer_defaultOptions) ''formatter''
     = JObj [(''indent'', JNum 4)]"
  by (simp add: run_defs overrides_config_def)

end
